theory Spec2Isabelle
  imports Complex_Main
begin

section \<open>Common model: arrays, exceptions, numpy statistics\<close>

text \<open>
  The two analyzers of the repository (\<^verbatim>\<open>analyzers/emotional_analyzer.py\<close> and
  \<^verbatim>\<open>analyzers/health_analyzer.py\<close>) are modelled over the real numbers: a Python
  \<^verbatim>\<open>float\<close> is a \<^typ>\<open>real\<close>, so rounding, infinities and NaN are outside the
  model. A one-dimensional sample buffer is a \<^typ>\<open>real list\<close>, a two-dimensional one a
  list of rows. The sample rate is a Python \<^verbatim>\<open>int\<close>, here \<^typ>\<open>int\<close>.

  The signal processing itself is done by the librosa library, which is not part of the
  repository. Every librosa call of the source is a field of the record \<open>librosa\<close> below:
  a function from the call's arguments to either an exception or the returned arrays.
  The analyzers are functions of such a record, so every theorem about them holds for
  whatever the library computes.
\<close>

datatype error = LibraryError | ValueError | ZeroDivisionError | IndexError

datatype ndarray = Arr1 "real list" | Arr2 "real list list"

text \<open>Sequencing of calls that may raise: the first exception ends the computation.\<close>

definition and_then :: "error + 'a \<Rightarrow> ('a \<Rightarrow> error + 'b) \<Rightarrow> error + 'b" where
  "and_then r f = (case r of Inl e \<Rightarrow> Inl e | Inr x \<Rightarrow> f x)"

text \<open>
  \<^verbatim>\<open>np.mean\<close> and \<^verbatim>\<open>np.std\<close> (population standard deviation, \<^verbatim>\<open>ddof=0\<close>) of a
  one-dimensional array. On an empty array numpy returns NaN with a warning; here the
  quotient by zero is \<open>0\<close>. Every use below that can see an empty array is followed in the
  source by a comparison \<^verbatim>\<open>> 0\<close>, which is false for NaN and for \<open>0\<close> alike.
\<close>

definition mean :: "real list \<Rightarrow> real" where
  "mean xs = sum_list xs / real (length xs)"

definition std :: "real list \<Rightarrow> real" where
  "std xs = sqrt (mean (map (\<lambda>x. (x - mean xs)\<^sup>2) xs))"

text \<open>\<^verbatim>\<open>np.diff\<close>: successive differences.\<close>

fun diff :: "real list \<Rightarrow> real list" where
  "diff (x # y # ys) = (y - x) # diff (y # ys)"
| "diff _ = []"

record librosa =
  stft_rms :: "real list \<Rightarrow> error + real list"
    \<comment> \<open>\<^verbatim>\<open>librosa.feature.rms(S=np.abs(librosa.stft(y)))[0]\<close>\<close>
  onset_strength :: "real list \<Rightarrow> int \<Rightarrow> error + real list"
    \<comment> \<open>\<^verbatim>\<open>librosa.onset.onset_strength(y=y, sr=sr)\<close>\<close>
  beat_track :: "real list \<Rightarrow> int \<Rightarrow> error + real \<times> nat list"
    \<comment> \<open>\<^verbatim>\<open>librosa.beat.beat_track(onset_envelope=env, sr=sr)\<close>: tempo and beat frames\<close>
  piptrack :: "real list \<Rightarrow> int \<Rightarrow> error + (real \<times> real) list"
    \<comment> \<open>\<^verbatim>\<open>librosa.piptrack(y=y, sr=sr)\<close>: the two arrays of equal shape, read together in
        row-major order as (pitch, magnitude) pairs\<close>
  onset_detect :: "real list \<Rightarrow> int \<Rightarrow> int \<Rightarrow> error + nat list"
    \<comment> \<open>\<^verbatim>\<open>librosa.onset.onset_detect(onset_envelope=env, sr=sr, wait=w)\<close>: frame indices\<close>
  normalize :: "real list \<Rightarrow> error + real list"
    \<comment> \<open>\<^verbatim>\<open>librosa.util.normalize(y)\<close>\<close>
  trim :: "real list \<Rightarrow> error + real list"
    \<comment> \<open>\<^verbatim>\<open>librosa.effects.trim(y, top_db=30)[0]\<close>\<close>
  rms :: "real list \<Rightarrow> error + real list"
    \<comment> \<open>\<^verbatim>\<open>librosa.feature.rms(y=y)[0]\<close>\<close>
  stft_abs :: "real list \<Rightarrow> error + real list list"
    \<comment> \<open>\<^verbatim>\<open>np.abs(librosa.stft(y))\<close>: one row per frequency bin\<close>
  fft_frequencies :: "int \<Rightarrow> error + real list"
    \<comment> \<open>\<^verbatim>\<open>librosa.fft_frequencies(sr=sr)\<close>\<close>

section \<open>The emotional analyzer\<close>

text \<open>
  The result dictionary of \<^verbatim>\<open>analyze_emotions\<close>. The probability dictionary is an
  association list, since \<^verbatim>\<open>max\<close> over its items depends on the insertion order.
  The keys are the source's Italian labels: \<open>gioia\<close> (joy), \<open>tristezza\<close> (sadness),
  \<open>rabbia\<close> (anger), \<open>ansia\<close> (anxiety), \<open>neutrale\<close> (neutral).
\<close>

record emotion_result =
  dominant_emotion :: string
  emotion_probabilities :: "(string \<times> real) list"
  speech_rate :: string
  pitch_variability :: string
  voice_energy :: string
  speech_pauses :: string
  rhythm_stability :: string
  speech_rate_value :: real
  pitch_variability_value :: real
  voice_energy_value :: real
  speech_pauses_value :: real
  rhythm_stability_value :: real

definition emotions :: "string list" where
  "emotions = [''gioia'', ''tristezza'', ''rabbia'', ''ansia'', ''neutrale'']"

text \<open>\<^verbatim>\<open>d[k] = v\<close> and \<^verbatim>\<open>d[k] += v\<close> on a key that is present: the order is kept.\<close>

definition set_item :: "(string \<times> real) list \<Rightarrow> string \<Rightarrow> real \<Rightarrow> (string \<times> real) list" where
  "set_item d k v = map (\<lambda>(k', v'). if k' = k then (k', v) else (k', v')) d"

definition add_item :: "(string \<times> real) list \<Rightarrow> string \<Rightarrow> real \<Rightarrow> (string \<times> real) list" where
  "add_item d k v = map (\<lambda>(k', v'). if k' = k then (k', v' + v) else (k', v')) d"

text \<open>
  \<^verbatim>\<open>max(items, key=lambda x: x[1])\<close>: Python keeps the first item and replaces it only by
  a strictly greater one; on an empty sequence it raises \<^verbatim>\<open>ValueError\<close>.
\<close>

fun max_from :: "(string \<times> real) \<Rightarrow> (string \<times> real) list \<Rightarrow> (string \<times> real)" where
  "max_from m [] = m"
| "max_from m (x # xs) = max_from (if snd x > snd m then x else m) xs"

definition max_item :: "(string \<times> real) list \<Rightarrow> error + (string \<times> real)" where
  "max_item d = (case d of [] \<Rightarrow> Inl ValueError | x # xs \<Rightarrow> Inr (max_from x xs))"

definition get_speech_rate :: "real \<Rightarrow> string" where
  "get_speech_rate tempo =
     (if tempo > 170 then ''fast'' else if tempo < 130 then ''slow'' else ''normal'')"

definition get_pitch_variability :: "real \<Rightarrow> string" where
  "get_pitch_variability s =
     (if s > 50 then ''high'' else if s > 20 then ''moderate'' else ''monotone'')"

definition get_energy_level :: "real \<Rightarrow> string" where
  "get_energy_level energy =
     (if energy > 0.1 then ''high'' else if energy > 0.05 then ''medium'' else ''low'')"

definition get_default_results :: emotion_result where
  "get_default_results =
     \<lparr> dominant_emotion = ''neutrale'',
       emotion_probabilities =
         [(''gioia'', 0.2), (''tristezza'', 0.2), (''rabbia'', 0.2), (''ansia'', 0.2),
          (''neutrale'', 0.2)],
       speech_rate = ''normal'',
       pitch_variability = ''moderate'',
       voice_energy = ''medium'',
       speech_pauses = ''normal'',
       rhythm_stability = ''stable'',
       speech_rate_value = 0.5,
       pitch_variability_value = 0.5,
       voice_energy_value = 0.5,
       speech_pauses_value = 0.5,
       rhythm_stability_value = 0.5 \<rparr>"

text \<open>Lines 49 to 72 of \<^verbatim>\<open>analyze_emotions\<close>: the seeded dictionary and the three rules.\<close>

definition rule_energy :: "real \<Rightarrow> (string \<times> real) list \<Rightarrow> (string \<times> real) list" where
  "rule_energy energy d =
     (if energy > 0.1
      then set_item (set_item d ''gioia'' energy) ''rabbia'' (energy * 0.5)
      else set_item d ''tristezza'' (0.1 - energy))"

definition rule_pitch :: "real \<Rightarrow> (string \<times> real) list \<Rightarrow> (string \<times> real) list" where
  "rule_pitch pitch_std d =
     (if pitch_std > 0
      then add_item (add_item d ''gioia'' (min (pitch_std / 100) 0.3))
             ''ansia'' (min (pitch_std / 200) 0.2)
      else d)"

definition rule_tempo :: "real \<Rightarrow> (string \<times> real) list \<Rightarrow> (string \<times> real) list" where
  "rule_tempo tempo d =
     (if tempo > 120
      then add_item (add_item d ''ansia'' (min ((tempo - 120) / 100) 0.3))
             ''rabbia'' (min ((tempo - 120) / 150) 0.2)
      else add_item d ''tristezza'' (min ((120 - tempo) / 100) 0.3))"

definition seed_scores :: "(string \<times> real) list" where
  "seed_scores =
     [(''gioia'', 0.0), (''tristezza'', 0.0), (''rabbia'', 0.0), (''ansia'', 0.0),
      (''neutrale'', 0.2)]"

definition raw_scores :: "real \<Rightarrow> real \<Rightarrow> real \<Rightarrow> (string \<times> real) list" where
  "raw_scores energy pitch_std tempo =
     rule_tempo tempo (rule_pitch pitch_std (rule_energy energy seed_scores))"

text \<open>Lines 75 to 79: normalization, with the uniform fallback.\<close>

definition normalize_scores :: "(string \<times> real) list \<Rightarrow> (string \<times> real) list" where
  "normalize_scores d =
     (let total = sum_list (map snd d)
      in if total > 0 then map (\<lambda>(k, v). (k, v / total)) d
         else map (\<lambda>(k, v). (k, 0.2)) d)"

text \<open>Lines 82 to 100: the result dictionary built from the three features.\<close>

definition build_results :: "real \<Rightarrow> real \<Rightarrow> real \<Rightarrow> error + emotion_result" where
  "build_results energy pitch_std tempo =
     (let emotion_scores = normalize_scores (raw_scores energy pitch_std tempo)
      in and_then (max_item emotion_scores) (\<lambda>best. Inr
        \<lparr> dominant_emotion = fst best,
          emotion_probabilities = emotion_scores,
          speech_rate = get_speech_rate tempo,
          pitch_variability = get_pitch_variability pitch_std,
          voice_energy = get_energy_level energy,
          speech_pauses = ''normal'',
          rhythm_stability = ''stable'',
          speech_rate_value = min (tempo / 200) 1.0,
          pitch_variability_value = (if pitch_std > 0 then min (pitch_std / 100) 1.0 else 0.5),
          voice_energy_value = min (energy * 10) 1.0,
          speech_pauses_value = 0.5,
          rhythm_stability_value = 0.5 \<rparr>))"

text \<open>
  Lines 20 to 22: \<^verbatim>\<open>np.asarray(audio_data, dtype=np.float32)\<close> followed by the mean over
  axis 1 of a two-dimensional buffer (one row per sample, one column per channel).
\<close>

definition to_mono :: "ndarray \<Rightarrow> real list" where
  "to_mono a = (case a of Arr1 xs \<Rightarrow> xs | Arr2 rows \<Rightarrow> map mean rows)"

text \<open>
  Lines 39 to 46: the pitch values whose magnitude exceeds a tenth of the greatest
  magnitude. \<^verbatim>\<open>np.max\<close> of an empty array raises \<^verbatim>\<open>ValueError\<close>.
\<close>

definition pitch_filter :: "(real \<times> real) list \<Rightarrow> error + real list" where
  "pitch_filter pm =
     (if pm = [] then Inl ValueError
      else Inr (map fst (filter (\<lambda>(p, m). m > Max (set (map snd pm)) * 0.1) pm)))"

text \<open>The body of the \<^verbatim>\<open>try\<close> block; an exception raised inside it is \<open>Inl\<close>.\<close>

definition analyze_emotions_try :: "librosa \<Rightarrow> ndarray \<Rightarrow> int \<Rightarrow> error + emotion_result" where
  "analyze_emotions_try lib audio sr =
     (let audio_data = to_mono audio
      in if real (length audio_data) < real_of_int sr * 0.5 then Inr get_default_results
         else
           and_then (stft_rms lib audio_data) (\<lambda>rms_frames.
           let energy = mean rms_frames in
           and_then (onset_strength lib audio_data sr) (\<lambda>onset_env.
           and_then (beat_track lib onset_env sr) (\<lambda>(tempo, beats).
           and_then (piptrack lib audio_data sr) (\<lambda>pm.
           and_then (pitch_filter pm) (\<lambda>pitch_values.
           let pitch_std = (if length pitch_values > 0 then std pitch_values else 0.0)
           in build_results energy pitch_std tempo))))))"

text \<open>\<^verbatim>\<open>analyze_emotions\<close>: the \<^verbatim>\<open>except Exception\<close> clause returns the default results.\<close>

definition analyze_emotions :: "librosa \<Rightarrow> ndarray \<Rightarrow> int \<Rightarrow> emotion_result" where
  "analyze_emotions lib audio sr =
     (case analyze_emotions_try lib audio sr of
        Inl e \<Rightarrow> get_default_results
      | Inr r \<Rightarrow> r)"

section \<open>The health analyzer\<close>

record breathing_report =
  rate :: real
  regularity :: real

record voice_quality_report =
  quality_score :: real
  hoarseness :: real
  strain :: real

record fatigue_report =
  fatigue_score :: real
  timeline :: "real list"

record speech_rhythm_report =
  fluency :: real
  stability :: real

record health_result =
  breathing :: breathing_report
  voice_quality :: voice_quality_report
  fatigue :: fatigue_report
  speech_rhythm :: speech_rhythm_report

definition preprocess_audio :: "librosa \<Rightarrow> real list \<Rightarrow> int \<Rightarrow> error + real list" where
  "preprocess_audio lib audio_data sr = and_then (normalize lib audio_data) (trim lib)"

text \<open>
  \<^verbatim>\<open>1 - std/mean if mean > 0 else 0\<close>, the expression shared by the breathing and the
  rhythm analysis.
\<close>

definition interval_regularity :: "real list \<Rightarrow> real" where
  "interval_regularity intervals =
     (if mean intervals > 0 then 1 - std intervals / mean intervals else 0)"

text \<open>Lines 59 to 64 of \<^verbatim>\<open>_analyze_breathing\<close>: the events are frame indices.\<close>

definition breath_intervals :: "nat list \<Rightarrow> int \<Rightarrow> real list" where
  "breath_intervals breath_events sr = map (\<lambda>d. d / real_of_int sr) (diff (map real breath_events))"

definition breathing_regularity :: "nat list \<Rightarrow> int \<Rightarrow> real" where
  "breathing_regularity breath_events sr =
     (if length breath_events > 1 then interval_regularity (breath_intervals breath_events sr)
      else 0)"

text \<open>
  \<^verbatim>\<open>_analyze_breathing\<close>. The quotient \<^verbatim>\<open>len(audio_data) / sr\<close> of two Python integers
  raises \<^verbatim>\<open>ZeroDivisionError\<close> when \<^verbatim>\<open>sr\<close> is zero.
\<close>

definition analyze_breathing :: "librosa \<Rightarrow> real list \<Rightarrow> int \<Rightarrow> string \<Rightarrow> error + breathing_report" where
  "analyze_breathing lib audio_data sr age_group =
     and_then (onset_strength lib audio_data sr) (\<lambda>onset_env.
     and_then (onset_detect lib onset_env sr (sr div 2)) (\<lambda>breath_events.
     if sr = 0 then Inl ZeroDivisionError
     else
       let duration = real (length audio_data) / real_of_int sr;
           breaths_per_minute =
             (if duration > 0 then (real (length breath_events) * 60) / duration else 0)
       in Inr \<lparr> rate = breaths_per_minute,
                 regularity = breathing_regularity breath_events sr \<rparr>))"

text \<open>Lines 75 to 81: the confidence filter (guarded by \<^verbatim>\<open>magnitudes.size > 0\<close>) and the jitter.\<close>

definition pitches_valid :: "(real \<times> real) list \<Rightarrow> real list" where
  "pitches_valid pm =
     (if length pm > 0
      then map fst (filter (\<lambda>(p, m). m > Max (set (map snd pm)) * 0.1) pm)
      else [])"

definition jitter_of :: "real list \<Rightarrow> real" where
  "jitter_of pv =
     (if length pv > 1 then (if mean pv > 0 then std (diff pv) / mean pv else 0) else 0)"

definition shimmer_of :: "real list \<Rightarrow> real" where
  "shimmer_of r = (if mean r > 0 then std r / mean r else 0)"

text \<open>
  Lines 88 to 97. \<^verbatim>\<open>S[freq_mask, :]\<close> raises \<^verbatim>\<open>IndexError\<close> when the mask and the rows
  of \<^verbatim>\<open>S\<close> differ in number. \<^verbatim>\<open>np.mean(rows, axis=0)\<close> is the list of column means. With
  no row in the low band numpy gives NaN for the ratio and the source then reports
  hoarseness 0; the model gives ratio 0. librosa's first frequency is 0 Hz, so the low
  band has a row whenever \<^verbatim>\<open>S\<close> has one.
\<close>

definition column_means :: "real list list \<Rightarrow> real list" where
  "column_means rows = map mean (transpose rows)"

definition hnr_of :: "real list list \<Rightarrow> real list \<Rightarrow> error + real" where
  "hnr_of S freqs =
     (if length freqs \<noteq> length S then Inl IndexError
      else
        let harmonic_energy = column_means (map snd (filter (\<lambda>(f, row). f \<le> 2000) (zip freqs S)));
            noise_energy = column_means (map snd (filter (\<lambda>(f, row). \<not> f \<le> 2000) (zip freqs S)))
        in Inr (if mean noise_energy > 0 then mean harmonic_energy / mean noise_energy else 0))"

text \<open>
  \<^verbatim>\<open>_analyze_voice_quality\<close>. The source evaluates the scores in floating point; here
  they are real numbers, so the model gives the calls that raise and the scores up to
  rounding, not their last bit.
\<close>

definition analyze_voice_quality :: "librosa \<Rightarrow> real list \<Rightarrow> int \<Rightarrow> error + voice_quality_report" where
  "analyze_voice_quality lib audio_data sr =
     and_then (piptrack lib audio_data sr) (\<lambda>pm.
     let jitter = jitter_of (pitches_valid pm) in
     and_then (rms lib audio_data) (\<lambda>r.
     let shimmer = shimmer_of r in
     and_then (stft_abs lib audio_data) (\<lambda>S.
     and_then (fft_frequencies lib sr) (\<lambda>freqs.
     and_then (hnr_of S freqs) (\<lambda>hnr.
     let strain = (jitter + shimmer) / 2;
         quality_score = 1 - mean [jitter, shimmer, strain]
     in Inr \<lparr> quality_score = quality_score,
               hoarseness = (if hnr < 1 then 1 - hnr else 0),
               strain = strain \<rparr>)))))"

text \<open>
  \<^verbatim>\<open>range(0, n, step)\<close>: \<^verbatim>\<open>ValueError\<close> for a zero step, empty for a negative one
  (\<open>n\<close> is a length, so not negative).
\<close>

definition range_from_zero :: "nat \<Rightarrow> int \<Rightarrow> error + nat list" where
  "range_from_zero n step =
     (if step = 0 then Inl ValueError
      else if step < 0 then Inr []
      else Inr (map (\<lambda>k. k * nat step) [0 ..< (n + nat step - 1) div nat step]))"

text \<open>\<^verbatim>\<open>audio_data[i:i + samples_per_segment]\<close> for \<open>i\<close> and the step not negative.\<close>

definition slice_from :: "real list \<Rightarrow> nat \<Rightarrow> int \<Rightarrow> real list" where
  "slice_from xs i n = take (nat n) (drop i xs)"

definition segments_of :: "real list \<Rightarrow> int \<Rightarrow> error + real list list" where
  "segments_of audio_data sr =
     (let samples_per_segment = sr * 3
      in and_then (range_from_zero (length audio_data) samples_per_segment) (\<lambda>starts.
         Inr (filter (\<lambda>seg. int (length seg) \<ge> sr)
                (map (\<lambda>i. slice_from audio_data i samples_per_segment) starts))))"

text \<open>The loop of lines 128 to 130: the mean RMS of each segment, in order.\<close>

fun segment_energies :: "librosa \<Rightarrow> real list list \<Rightarrow> error + real list" where
  "segment_energies lib [] = Inr []"
| "segment_energies lib (segment # rest) =
     and_then (rms lib segment) (\<lambda>r.
     and_then (segment_energies lib rest) (\<lambda>es. Inr (mean r # es)))"

text \<open>Lines 133 to 138, for the non-empty list the loop leaves.\<close>

definition normalize_trend :: "real list \<Rightarrow> real list" where
  "normalize_trend energy_trend =
     (case energy_trend of
        [] \<Rightarrow> []
      | e # es \<Rightarrow>
          let max_energy = fold max es e
          in map (\<lambda>e. if max_energy > 0 then e / max_energy else 0) energy_trend)"

definition fatigue_score_of :: "real list \<Rightarrow> real" where
  "fatigue_score_of energy_trend =
     (if energy_trend \<noteq> [] \<and> hd energy_trend > 0
      then 1 - last energy_trend / hd energy_trend else 0)"

definition analyze_fatigue :: "librosa \<Rightarrow> real list \<Rightarrow> int \<Rightarrow> error + fatigue_report" where
  "analyze_fatigue lib audio_data sr =
     and_then (segments_of audio_data sr) (\<lambda>segments.
     if segments = [] then Inr \<lparr> fatigue_score = 0.0, timeline = [0.0] \<rparr>
     else
       and_then (segment_energies lib segments) (\<lambda>energies.
       let energy_trend = normalize_trend energies
       in Inr \<lparr> fatigue_score = fatigue_score_of energy_trend, timeline = energy_trend \<rparr>))"

definition analyze_speech_rhythm :: "librosa \<Rightarrow> real list \<Rightarrow> int \<Rightarrow> error + speech_rhythm_report" where
  "analyze_speech_rhythm lib audio_data sr =
     and_then (onset_strength lib audio_data sr) (\<lambda>onset_env.
     and_then (beat_track lib onset_env sr) (\<lambda>(tempo, beats).
     let rhythm_regularity =
           (if length beats > 1 then interval_regularity (diff (map real beats)) else 0)
     in Inr \<lparr> fluency = rhythm_regularity,
               stability = (rhythm_regularity + (1 - \<bar>tempo - 120\<bar> / 120)) / 2 \<rparr>))"

text \<open>\<^verbatim>\<open>analyze_health\<close> has no \<^verbatim>\<open>try\<close> block: an exception of any step leaves it.\<close>

definition analyze_health :: "librosa \<Rightarrow> real list \<Rightarrow> int \<Rightarrow> string \<Rightarrow> error + health_result" where
  "analyze_health lib audio sr age_group =
     and_then (preprocess_audio lib audio sr) (\<lambda>audio_data.
     and_then (analyze_breathing lib audio_data sr age_group) (\<lambda>b.
     and_then (analyze_voice_quality lib audio_data sr) (\<lambda>q.
     and_then (analyze_fatigue lib audio_data sr) (\<lambda>f.
     and_then (analyze_speech_rhythm lib audio_data sr) (\<lambda>r.
     Inr \<lparr> breathing = b, voice_quality = q, fatigue = f, speech_rhythm = r \<rparr>)))))"

section \<open>Properties used in the statements, and library stand-ins\<close>

text \<open>Same keys in the same order, and no value smaller than before.\<close>

definition no_less :: "(string \<times> real) list \<Rightarrow> (string \<times> real) list \<Rightarrow> bool" where
  "no_less d d' = list_all2 (\<lambda>(k, v) (k', v'). k = k' \<and> v \<le> v') d d'"

text \<open>Position \<open>i\<close> holds a greatest value, and every earlier position a smaller one.\<close>

definition first_argmax :: "(string \<times> real) list \<Rightarrow> nat \<Rightarrow> bool" where
  "first_argmax ps i =
     (i < length ps \<and> (\<forall>j < length ps. snd (ps ! j) \<le> snd (ps ! i)) \<and>
      (\<forall>j < i. snd (ps ! j) < snd (ps ! i)))"

definition succeeds :: "error + 'a \<Rightarrow> bool" where
  "succeeds r = (case r of Inl e \<Rightarrow> False | Inr x \<Rightarrow> True)"

text \<open>
  The contract of the \<^verbatim>\<open>wait\<close> argument of librosa's peak picker, which
  \<^verbatim>\<open>onset_detect\<close> calls last: a frame is reported only if it lies more than \<open>wait\<close>
  frames after the frame reported before it.
\<close>

fun spaced :: "int \<Rightarrow> nat list \<Rightarrow> bool" where
  "spaced w (x # y # ys) = (int x + w < int y \<and> spaced w (y # ys))"
| "spaced w _ = True"

text \<open>
  The selection loop that gives this contract: go through the candidate frames in order
  and keep one when it is more than \<open>wait\<close> after the last one kept.
\<close>

fun pick_after :: "int \<Rightarrow> nat \<Rightarrow> nat list \<Rightarrow> nat list" where
  "pick_after w last_onset [] = []"
| "pick_after w last_onset (i # rest) =
     (if int i > int last_onset + w then i # pick_after w i rest
      else pick_after w last_onset rest)"

definition pick_with_wait :: "int \<Rightarrow> nat list \<Rightarrow> nat list" where
  "pick_with_wait w candidates =
     (case candidates of [] \<Rightarrow> [] | i # rest \<Rightarrow> i # pick_after w i rest)"

text \<open>
  A library stand-in for concrete runs: every call succeeds on fixed arrays, the onset
  detector picks among the given candidate frames, and the RMS envelope of a signal is
  given by a function.
\<close>

definition fixture_lib :: "nat list \<Rightarrow> (real list \<Rightarrow> real list) \<Rightarrow> librosa" where
  "fixture_lib candidates envelope =
     \<lparr> stft_rms = (\<lambda>y. Inr [0.2]),
       onset_strength = (\<lambda>y sr. Inr [0, 1, 0]),
       beat_track = (\<lambda>env sr. Inr (150, [0, 10, 20])),
       piptrack = (\<lambda>y sr. Inr [(100, 1), (100, 1)]),
       onset_detect = (\<lambda>env sr w. Inr (pick_with_wait w candidates)),
       normalize = (\<lambda>y. Inr y),
       trim = (\<lambda>y. Inr y),
       rms = (\<lambda>y. Inr (envelope y)),
       stft_abs = (\<lambda>y. Inr [[2], [1]]),
       fft_frequencies = (\<lambda>sr. Inr [0, 4000]) \<rparr>"





text \<open>
  The run of \<^verbatim>\<open>analyze_health\<close> raises nothing: every library call it makes returns,
  the sample rate is not zero, and the spectrogram has one row for each frequency of
  \<^verbatim>\<open>fft_frequencies\<close>.
\<close>

definition health_run_ok :: "librosa \<Rightarrow> real list \<Rightarrow> int \<Rightarrow> bool" where
  "health_run_ok lib audio sr =
     (case normalize lib audio of Inl e \<Rightarrow> False | Inr n \<Rightarrow>
      case trim lib n of Inl e \<Rightarrow> False | Inr a \<Rightarrow>
        (case onset_strength lib a sr of Inl e \<Rightarrow> False | Inr env \<Rightarrow>
           succeeds (onset_detect lib env sr (sr div 2)) \<and> succeeds (beat_track lib env sr)) \<and>
        sr \<noteq> 0 \<and>
        succeeds (piptrack lib a sr) \<and> succeeds (rms lib a) \<and>
        (case stft_abs lib a of Inl e \<Rightarrow> False | Inr S \<Rightarrow>
         case fft_frequencies lib sr of Inl e \<Rightarrow> False | Inr freqs \<Rightarrow> length freqs = length S) \<and>
        (case segments_of a sr of Inl e \<Rightarrow> False | Inr segs \<Rightarrow>
           list_all (\<lambda>seg. succeeds (rms lib seg)) segs))"

text \<open>A library stand-in in which every call raises.\<close>

definition failing_lib :: librosa where
  "failing_lib =
     \<lparr> stft_rms = (\<lambda>y. Inl LibraryError),
       onset_strength = (\<lambda>y sr. Inl LibraryError),
       beat_track = (\<lambda>env sr. Inl LibraryError),
       piptrack = (\<lambda>y sr. Inl LibraryError),
       onset_detect = (\<lambda>env sr w. Inl LibraryError),
       normalize = (\<lambda>y. Inl LibraryError),
       trim = (\<lambda>y. Inl LibraryError),
       rms = (\<lambda>y. Inl LibraryError),
       stft_abs = (\<lambda>y. Inl LibraryError),
       fft_frequencies = (\<lambda>sr. Inl LibraryError) \<rparr>"

section \<open>Lemmas about the emotional analyzer\<close>

lemma raw_scores_explicit:
  "raw_scores e p t =
     [(''gioia'', (if e > 0.1 then e else 0) + (if p > 0 then min (p / 100) 0.3 else 0)),
      (''tristezza'', (if e > 0.1 then 0 else 0.1 - e) + (if t > 120 then 0 else min ((120 - t) / 100) 0.3)),
      (''rabbia'', (if e > 0.1 then e * 0.5 else 0) + (if t > 120 then min ((t - 120) / 150) 0.2 else 0)),
      (''ansia'', (if p > 0 then min (p / 200) 0.2 else 0) + (if t > 120 then min ((t - 120) / 100) 0.3 else 0)),
      (''neutrale'', 0.2)]"
  by (simp add: raw_scores_def rule_tempo_def rule_pitch_def rule_energy_def seed_scores_def
        set_item_def add_item_def)

lemma raw_scores_keys: "map fst (raw_scores e p t) = emotions"
  by (simp add: raw_scores_explicit emotions_def)

lemma raw_scores_total: "0.2 \<le> sum_list (map snd (raw_scores e p t))"
  by (simp add: raw_scores_explicit min_def)

lemma no_less_add_item: "0 \<le> v \<Longrightarrow> no_less d (add_item d k v)"
  by (simp add: no_less_def add_item_def list_all2_map2 list_all2_same split: prod.splits)

lemma no_less_trans: "no_less a b \<Longrightarrow> no_less b c \<Longrightarrow> no_less a c"
  unfolding no_less_def
  by (rule list_all2_trans[where ?P1.0="\<lambda>(k, v) (k', v'). k = k' \<and> v \<le> (v'::real)" and ?P2.0="\<lambda>(k, v) (k', v'). k = k' \<and> v \<le> (v'::real)"]) auto

lemma no_less_refl: "no_less d d"
  by (simp add: no_less_def list_all2_same split: prod.splits)

lemma no_less_rule_pitch: "no_less d (rule_pitch p d)"
  unfolding rule_pitch_def
  by (auto intro!: no_less_refl no_less_trans[OF no_less_add_item no_less_add_item])

lemma no_less_rule_tempo: "no_less d (rule_tempo t d)"
  unfolding rule_tempo_def
  by (auto intro!: no_less_add_item no_less_trans[OF no_less_add_item no_less_add_item])

lemma no_less_rule_energy: "no_less seed_scores (rule_energy e seed_scores)"
  by (simp add: rule_energy_def seed_scores_def set_item_def no_less_def)

lemma normalize_keys: "map fst (normalize_scores d) = map fst d"
  by (simp add: normalize_scores_def Let_def split: prod.splits)

lemma normalize_sum:
  assumes "0 < sum_list (map snd d)"
  shows "sum_list (map snd (normalize_scores d)) = 1"
proof -
  have "sum_list (map snd (map (\<lambda>(k, v). (k, v / c)) d)) = sum_list (map snd d) / c" for c :: real
    by (induction d) (auto simp: add_divide_distrib)
  then show ?thesis using assms by (simp add: normalize_scores_def Let_def del: map_map)
qed

lemma normalize_uniform:
  assumes "sum_list (map snd d) \<le> 0"
  shows "map snd (normalize_scores d) = replicate (length d) 0.2"
  using assms by (simp add: normalize_scores_def Let_def map_replicate_const[symmetric] comp_def split: prod.splits)

lemma first_argmax_snoc:
  assumes "first_argmax pre i"
  shows "first_argmax (pre @ [x]) (if snd x > snd (pre ! i) then length pre else i)"
  using assms unfolding first_argmax_def
  by (auto simp: nth_append less_Suc_eq intro: less_imp_le order_le_less_trans)

lemma max_from_first_argmax:
  "first_argmax pre i \<Longrightarrow>
   \<exists>i'. first_argmax (pre @ xs) i' \<and> max_from (pre ! i) xs = (pre @ xs) ! i'"
proof (induction xs arbitrary: pre i)
  case Nil
  then show ?case by auto
next
  case (Cons x xs)
  let ?i = "if snd x > snd (pre ! i) then length pre else i"
  have fa: "first_argmax (pre @ [x]) ?i" by (rule first_argmax_snoc[OF Cons.prems])
  have i: "i < length pre" using Cons.prems by (simp add: first_argmax_def)
  have m: "(pre @ [x]) ! ?i = (if snd x > snd (pre ! i) then x else pre ! i)"
    using i by (simp add: nth_append)
  from Cons.IH[OF fa] obtain i' where
    "first_argmax ((pre @ [x]) @ xs) i'" "max_from ((pre @ [x]) ! ?i) xs = ((pre @ [x]) @ xs) ! i'"
    by blast
  then show ?case unfolding m by auto
qed

lemma max_item_first_argmax:
  assumes "d \<noteq> []"
  shows "\<exists>i. first_argmax d i \<and> max_item d = Inr (d ! i)"
proof -
  obtain x xs where d: "d = x # xs" using assms by (cases d) auto
  have "first_argmax [x] 0" by (simp add: first_argmax_def)
  from max_from_first_argmax[OF this, of xs] show ?thesis
    by (auto simp: d max_item_def)
qed

lemma and_then_Inr: "and_then r f = Inr y \<Longrightarrow> \<exists>x. r = Inr x \<and> f x = Inr y"
  by (cases r) (auto simp: and_then_def)

lemma and_then_simps [simp]: "and_then (Inl e) f = Inl e" "and_then (Inr x) f = f x"
  by (simp_all add: and_then_def)

lemma normalized_raw:
  "normalize_scores (raw_scores e p t) =
     map (\<lambda>(k, v). (k, v / sum_list (map snd (raw_scores e p t)))) (raw_scores e p t)"
proof -
  have "0 < sum_list (map snd (raw_scores e p t))"
    using raw_scores_total[of e p t] by linarith
  then show ?thesis by (simp add: normalize_scores_def Let_def)
qed

lemma probabilities_nonempty: "normalize_scores (raw_scores e p t) \<noteq> []"
proof
  assume "normalize_scores (raw_scores e p t) = []"
  then have "map fst (normalize_scores (raw_scores e p t)) = []" by simp
  then show False by (simp add: normalize_keys raw_scores_keys emotions_def)
qed

lemma build_results_Inr:
  "\<exists>r i. build_results e p t = Inr r \<and>
     emotion_probabilities r = normalize_scores (raw_scores e p t) \<and>
     first_argmax (emotion_probabilities r) i \<and>
     dominant_emotion r = fst (emotion_probabilities r ! i)"
proof -
  from max_item_first_argmax[OF probabilities_nonempty, of e p t]
  obtain i where i: "first_argmax (normalize_scores (raw_scores e p t)) i"
    "max_item (normalize_scores (raw_scores e p t)) = Inr (normalize_scores (raw_scores e p t) ! i)"
    by blast
  show ?thesis
    using i by (auto simp: build_results_def Let_def)
qed

lemma try_cases:
  assumes "analyze_emotions_try lib audio sr = Inr r"
  shows "(real (length (to_mono audio)) < real_of_int sr * 0.5 \<and> r = get_default_results) \<or>
         (\<not> real (length (to_mono audio)) < real_of_int sr * 0.5 \<and>
          (\<exists>e p t. build_results e p t = Inr r))"
proof (cases "real (length (to_mono audio)) < real_of_int sr * 0.5")
  case True
  then show ?thesis using assms by (simp add: analyze_emotions_try_def Let_def)
next
  case False
  from assms False obtain rf where 1: "stft_rms lib (to_mono audio) = Inr rf"
    by (cases "stft_rms lib (to_mono audio)") (auto simp: analyze_emotions_try_def Let_def)
  from assms False 1 obtain env where 2: "onset_strength lib (to_mono audio) sr = Inr env"
    by (cases "onset_strength lib (to_mono audio) sr") (auto simp: analyze_emotions_try_def Let_def)
  from assms False 1 2 obtain tempo beats where 3: "beat_track lib env sr = Inr (tempo, beats)"
    by (cases "beat_track lib env sr") (auto simp: analyze_emotions_try_def Let_def)
  from assms False 1 2 3 obtain pm where 4: "piptrack lib (to_mono audio) sr = Inr pm"
    by (cases "piptrack lib (to_mono audio) sr") (auto simp: analyze_emotions_try_def Let_def)
  from assms False 1 2 3 4 obtain pv where 5: "pitch_filter pm = Inr pv"
    by (cases "pitch_filter pm") (auto simp: analyze_emotions_try_def Let_def)
  from assms False 1 2 3 4 5 show ?thesis
    by (auto simp: analyze_emotions_try_def Let_def)
qed

section \<open>The claims about the emotional analyzer\<close>

text \<open>
  Claim C8. No rule lowers a score: the energy rule on the seeded dictionary, and the
  pitch and tempo rules on any dictionary, leave every value at least as large as it was.
  So the raw scores are at least the seed, their total is at least the 0.2 seeded for
  \<open>neutrale\<close>, and the normalization always divides by the total: the uniform fallback
  of line 79 is never taken after the rules.
\<close>

theorem raw_total_at_least_seed:
  "no_less seed_scores (rule_energy energy seed_scores) \<and>
   no_less d (rule_pitch pitch_std d) \<and>
   no_less d' (rule_tempo tempo d') \<and>
   no_less seed_scores (raw_scores energy pitch_std tempo) \<and>
   0.2 \<le> sum_list (map snd (raw_scores energy pitch_std tempo)) \<and>
   normalize_scores (raw_scores energy pitch_std tempo) =
     map (\<lambda>(k, v). (k, v / sum_list (map snd (raw_scores energy pitch_std tempo))))
       (raw_scores energy pitch_std tempo)"
proof -
  have "no_less seed_scores (raw_scores energy pitch_std tempo)"
    unfolding raw_scores_def
    by (rule no_less_trans[OF no_less_rule_energy no_less_trans[OF no_less_rule_pitch no_less_rule_tempo]])
  then show ?thesis
    using no_less_rule_energy no_less_rule_pitch no_less_rule_tempo raw_scores_total normalized_raw
    by blast
qed

text \<open>
  Claim C1. Whatever the library returns, the probability dictionary of the result has
  exactly the five keys, in the fixed order, and its values sum to 1. It is either the
  default dictionary or the normalization of raw scores. The normalization keeps the
  keys, gives values that sum to 1 when the total is positive and gives 0.2 everywhere
  otherwise. On the short-clip path and on the failure path every value is 0.2.
\<close>

theorem probabilities_keys_and_sum:
  "map fst (emotion_probabilities (analyze_emotions lib audio sr)) = emotions \<and>
   sum_list (map snd (emotion_probabilities (analyze_emotions lib audio sr))) = 1 \<and>
   (emotion_probabilities (analyze_emotions lib audio sr) = emotion_probabilities get_default_results \<or>
    (\<exists>e p t. emotion_probabilities (analyze_emotions lib audio sr) = normalize_scores (raw_scores e p t))) \<and>
   map fst (normalize_scores d) = map fst d \<and>
   (0 < sum_list (map snd d) \<longrightarrow> sum_list (map snd (normalize_scores d)) = 1) \<and>
   (sum_list (map snd d) \<le> 0 \<longrightarrow> map snd (normalize_scores d) = replicate (length d) 0.2) \<and>
   (real (length (to_mono audio)) < real_of_int sr * 0.5 \<longrightarrow>
      map snd (emotion_probabilities (analyze_emotions lib audio sr)) = replicate 5 0.2) \<and>
   (\<forall>e. analyze_emotions_try lib audio sr = Inl e \<longrightarrow>
      map snd (emotion_probabilities (analyze_emotions lib audio sr)) = replicate 5 0.2)"
proof -
  let ?r = "analyze_emotions lib audio sr"
  have dflt: "map fst (emotion_probabilities get_default_results) = emotions"
    "sum_list (map snd (emotion_probabilities get_default_results)) = 1"
    "map snd (emotion_probabilities get_default_results) = replicate 5 0.2"
    by (simp_all add: get_default_results_def emotions_def numeral_eq_Suc)
  have built: "map fst (emotion_probabilities r) = emotions \<and>
      sum_list (map snd (emotion_probabilities r)) = 1 \<and>
      emotion_probabilities r = normalize_scores (raw_scores e p t)"
    if "build_results e p t = Inr r" for e p t r
  proof -
    from build_results_Inr[of e p t] that
    have eq: "emotion_probabilities r = normalize_scores (raw_scores e p t)" by auto
    have "0 < sum_list (map snd (raw_scores e p t))"
      using raw_scores_total[of e p t] by linarith
    then show ?thesis
      by (simp add: eq normalize_keys raw_scores_keys normalize_sum)
  qed
  have cases: "?r = get_default_results \<or> (\<exists>e p t. build_results e p t = Inr ?r)"
  proof (cases "analyze_emotions_try lib audio sr")
    case (Inl e)
    then show ?thesis by (simp add: analyze_emotions_def)
  next
    case (Inr r)
    then have "?r = r" by (simp add: analyze_emotions_def)
    with try_cases[OF Inr] show ?thesis by auto
  qed
  have short: "real (length (to_mono audio)) < real_of_int sr * 0.5 \<Longrightarrow> ?r = get_default_results"
    by (simp add: analyze_emotions_def analyze_emotions_try_def Let_def)
  have fail: "analyze_emotions_try lib audio sr = Inl e \<Longrightarrow> ?r = get_default_results" for e
    by (simp add: analyze_emotions_def)
  from cases have 1: "map fst (emotion_probabilities ?r) = emotions"
    using dflt built by metis
  from cases have 2: "sum_list (map snd (emotion_probabilities ?r)) = 1"
    using dflt built by metis
  from cases have 3: "emotion_probabilities ?r = emotion_probabilities get_default_results \<or>
    (\<exists>e p t. emotion_probabilities ?r = normalize_scores (raw_scores e p t))"
    using built by metis
  show ?thesis
    using 1 2 3 normalize_keys normalize_sum normalize_uniform short fail dflt(3)
    by auto
qed

theorem probabilities_keys_and_sum_witness:
  "0 < sum_list (map snd [(''gioia'', 1::real), (''tristezza'', 3)]) \<and>
   sum_list (map snd (normalize_scores [(''gioia'', 1), (''tristezza'', 3)])) = 1 \<and>
   sum_list (map snd [(''gioia'', 0::real), (''tristezza'', 0)]) \<le> 0 \<and>
   map snd (normalize_scores [(''gioia'', 0), (''tristezza'', 0)]) = replicate 2 0.2 \<and>
   real (length (to_mono (Arr1 (replicate 4000 0)))) < real_of_int 16000 * 0.5 \<and>
   map snd (emotion_probabilities (analyze_emotions (fixture_lib [] id) (Arr1 (replicate 4000 0)) 16000))
     = replicate 5 0.2 \<and>
   analyze_emotions_try failing_lib (Arr1 (replicate 16000 0)) 16000 = Inl LibraryError \<and>
   map snd (emotion_probabilities (analyze_emotions failing_lib (Arr1 (replicate 16000 0)) 16000))
     = replicate 5 0.2"
proof -
  have short: "real (length (to_mono (Arr1 (replicate 4000 0)))) < real_of_int 16000 * 0.5"
    by (simp add: to_mono_def)
  have fails: "analyze_emotions_try failing_lib (Arr1 (replicate 16000 0)) 16000 = Inl LibraryError"
    by (simp add: analyze_emotions_try_def to_mono_def failing_lib_def)
  have pos: "0 < sum_list (map snd [(''gioia'', 1::real), (''tristezza'', 3)])" by simp
  have npos: "sum_list (map snd [(''gioia'', 0::real), (''tristezza'', 0)]) \<le> 0" by simp
  note A = probabilities_keys_and_sum[of "fixture_lib [] id" "Arr1 (replicate 4000 0)" 16000
        "[(''gioia'', 1), (''tristezza'', 3)]"]
  note B = probabilities_keys_and_sum[of failing_lib "Arr1 (replicate 16000 0)" 16000
        "[(''gioia'', 0), (''tristezza'', 0)]"]
  have 1: "sum_list (map snd (normalize_scores [(''gioia'', 1), (''tristezza'', 3)])) = 1"
    using A pos by blast
  have "map snd (normalize_scores [(''gioia'', 0), (''tristezza'', 0)])
      = replicate (length [(''gioia'', 0::real), (''tristezza'', 0)]) 0.2"
    using B npos by blast
  then have 2: "map snd (normalize_scores [(''gioia'', 0), (''tristezza'', 0)]) = replicate 2 0.2"
    by (simp add: numeral_2_eq_2)
  have 3: "map snd (emotion_probabilities (analyze_emotions (fixture_lib [] id) (Arr1 (replicate 4000 0)) 16000))
     = replicate 5 0.2"
    using A short by blast
  have 4: "map snd (emotion_probabilities (analyze_emotions failing_lib (Arr1 (replicate 16000 0)) 16000))
     = replicate 5 0.2"
    using B fails by blast
  show ?thesis using pos npos short fails 1 2 3 4 by blast
qed

text \<open>
  Claim C2. A clip with fewer samples than half the sample rate gets the fixed default
  result, whatever the library would compute: \<open>neutrale\<close> dominant, every probability
  0.2, the buckets normal, moderate, medium, normal, stable, and every scalar value 0.5.
\<close>

theorem short_clip_default:
  assumes "real (length (to_mono audio)) < real_of_int sr * 0.5"
  shows "analyze_emotions lib audio sr =
     \<lparr> dominant_emotion = ''neutrale'',
       emotion_probabilities =
         [(''gioia'', 0.2), (''tristezza'', 0.2), (''rabbia'', 0.2), (''ansia'', 0.2),
          (''neutrale'', 0.2)],
       speech_rate = ''normal'',
       pitch_variability = ''moderate'',
       voice_energy = ''medium'',
       speech_pauses = ''normal'',
       rhythm_stability = ''stable'',
       speech_rate_value = 0.5,
       pitch_variability_value = 0.5,
       voice_energy_value = 0.5,
       speech_pauses_value = 0.5,
       rhythm_stability_value = 0.5 \<rparr>"
  using assms
  by (simp add: analyze_emotions_def analyze_emotions_try_def Let_def get_default_results_def)

theorem short_clip_default_witness:
  "real (length (to_mono (Arr1 (replicate 4000 0)))) < real_of_int 16000 * 0.5 \<and>
   dominant_emotion (analyze_emotions (fixture_lib [] id) (Arr1 (replicate 4000 0)) 16000) = ''neutrale'' \<and>
   map snd (emotion_probabilities (analyze_emotions (fixture_lib [] id) (Arr1 (replicate 4000 0)) 16000))
     = [0.2, 0.2, 0.2, 0.2, 0.2]"
proof -
  have short: "real (length (to_mono (Arr1 (replicate 4000 0)))) < real_of_int 16000 * 0.5"
    by (simp add: to_mono_def)
  show ?thesis
    using short short_clip_default[OF short, of "fixture_lib [] id"] by simp
qed

text \<open>A run of the whole analyzer on the library stand-in: \<open>rabbia\<close> and \<open>ansia\<close> tie.\<close>

lemma fixture_run:
  "analyze_emotions_try (fixture_lib [] id) (Arr1 (replicate 16000 0)) 16000 = Inr
     \<lparr> dominant_emotion = ''rabbia'',
       emotion_probabilities =
         [(''gioia'', 0.2), (''tristezza'', 0), (''rabbia'', 0.3), (''ansia'', 0.3),
          (''neutrale'', 0.2)],
       speech_rate = ''normal'',
       pitch_variability = ''monotone'',
       voice_energy = ''high'',
       speech_pauses = ''normal'',
       rhythm_stability = ''stable'',
       speech_rate_value = 0.75,
       pitch_variability_value = 0.5,
       voice_energy_value = 1,
       speech_pauses_value = 0.5,
       rhythm_stability_value = 0.5 \<rparr>"
  by (simp add: analyze_emotions_try_def to_mono_def fixture_lib_def pitch_filter_def mean_def
      std_def build_results_def raw_scores_explicit normalize_scores_def max_item_def
      get_speech_rate_def get_pitch_variability_def get_energy_level_def Let_def)

text \<open>
  Claim C7. On the path that is neither the short-clip nor the failure path, the
  dominant emotion is the key at the first position holding the greatest probability of
  the normalized dictionary, whose keys are in the order \<open>gioia\<close>, \<open>tristezza\<close>,
  \<open>rabbia\<close>, \<open>ansia\<close>, \<open>neutrale\<close>.
\<close>

theorem dominant_is_first_argmax:
  assumes "\<not> real (length (to_mono audio)) < real_of_int sr * 0.5"
    and "succeeds (analyze_emotions_try lib audio sr)"
  shows "\<exists>i. first_argmax (emotion_probabilities (analyze_emotions lib audio sr)) i \<and>
           dominant_emotion (analyze_emotions lib audio sr) = emotions ! i \<and>
           map fst (emotion_probabilities (analyze_emotions lib audio sr)) = emotions \<and>
           (\<exists>e p t. emotion_probabilities (analyze_emotions lib audio sr)
                      = normalize_scores (raw_scores e p t))"
proof -
  from assms(2) obtain r where r: "analyze_emotions_try lib audio sr = Inr r"
    by (cases "analyze_emotions_try lib audio sr") (auto simp: succeeds_def)
  then have eq: "analyze_emotions lib audio sr = r" by (simp add: analyze_emotions_def)
  from try_cases[OF r] assms(1) obtain e p t where b: "build_results e p t = Inr r" by auto
  from build_results_Inr[of e p t] b obtain i where
    ps: "emotion_probabilities r = normalize_scores (raw_scores e p t)"
    and fa: "first_argmax (emotion_probabilities r) i"
    and dom: "dominant_emotion r = fst (emotion_probabilities r ! i)"
    by auto
  have keys: "map fst (emotion_probabilities r) = emotions"
    by (simp add: ps normalize_keys raw_scores_keys)
  have "i < length (emotion_probabilities r)" using fa by (simp add: first_argmax_def)
  then have "fst (emotion_probabilities r ! i) = map fst (emotion_probabilities r) ! i"
    by simp
  then have "dominant_emotion r = emotions ! i" using dom keys by simp
  then show ?thesis using fa keys ps unfolding eq by blast
qed

theorem dominant_is_first_argmax_witness:
  "\<not> real (length (to_mono (Arr1 (replicate 16000 0)))) < real_of_int 16000 * 0.5 \<and>
   succeeds (analyze_emotions_try (fixture_lib [] id) (Arr1 (replicate 16000 0)) 16000) \<and>
   (\<exists>i. first_argmax (emotion_probabilities
            (analyze_emotions (fixture_lib [] id) (Arr1 (replicate 16000 0)) 16000)) i \<and>
        dominant_emotion (analyze_emotions (fixture_lib [] id) (Arr1 (replicate 16000 0)) 16000)
          = emotions ! i) \<and>
   map snd (emotion_probabilities
     (analyze_emotions (fixture_lib [] id) (Arr1 (replicate 16000 0)) 16000))
     = [0.2, 0, 0.3, 0.3, 0.2] \<and>
   dominant_emotion (analyze_emotions (fixture_lib [] id) (Arr1 (replicate 16000 0)) 16000)
     = ''rabbia''"
proof -
  have long: "\<not> real (length (to_mono (Arr1 (replicate 16000 0)))) < real_of_int 16000 * 0.5"
    by (simp add: to_mono_def)
  have ok: "succeeds (analyze_emotions_try (fixture_lib [] id) (Arr1 (replicate 16000 0)) 16000)"
    by (simp add: fixture_run succeeds_def)
  have run: "map snd (emotion_probabilities
     (analyze_emotions (fixture_lib [] id) (Arr1 (replicate 16000 0)) 16000))
     = [0.2, 0, 0.3, 0.3, 0.2]"
    "dominant_emotion (analyze_emotions (fixture_lib [] id) (Arr1 (replicate 16000 0)) 16000)
     = ''rabbia''"
    by (simp_all add: analyze_emotions_def fixture_run)
  from dominant_is_first_argmax[OF long ok] long ok run show ?thesis by blast
qed

text \<open>
  Claim C10. A two-dimensional buffer is first reduced to the list of its row means
  (the mean over the channels of each sample; for two channels, half the sum of left
  and right), and the result is the result on that one-dimensional signal.
\<close>

theorem mono_downmix:
  "to_mono (Arr2 rows) = map mean rows \<and>
   to_mono (Arr2 (map (\<lambda>(l, r). [l, r]) stereo)) = map (\<lambda>(l, r). (l + r) / 2) stereo \<and>
   analyze_emotions lib (Arr2 rows) sr = analyze_emotions lib (Arr1 (map mean rows)) sr"
proof -
  have rows: "to_mono (Arr2 rows) = map mean rows" for rows
    by (simp add: to_mono_def)
  have "map mean (map (\<lambda>(l, r). [l, r]) stereo) = map (\<lambda>(l, r). (l + r) / 2) stereo"
    by (induction stereo) (auto simp: mean_def)
  then have stereo: "to_mono (Arr2 (map (\<lambda>(l, r). [l, r]) stereo))
      = map (\<lambda>(l, r). (l + r) / 2) stereo"
    by (simp only: rows)
  have "analyze_emotions_try lib (Arr2 rows) sr = analyze_emotions_try lib (Arr1 (map mean rows)) sr"
    by (simp add: analyze_emotions_try_def to_mono_def)
  then have "analyze_emotions lib (Arr2 rows) sr = analyze_emotions lib (Arr1 (map mean rows)) sr"
    by (simp add: analyze_emotions_def)
  with rows stereo show ?thesis by blast
qed

section \<open>Lemmas about the health analyzer\<close>

lemma mean_nonneg: "(\<And>x. x \<in> set xs \<Longrightarrow> 0 \<le> x) \<Longrightarrow> 0 \<le> mean xs"
  by (simp add: mean_def sum_list_nonneg)




lemma succeeds_simps [simp]: "succeeds (Inr x)" "\<not> succeeds (Inl e)"
  by (simp_all add: succeeds_def)

lemma succeedsE: "succeeds r \<Longrightarrow> (\<And>x. r = Inr x \<Longrightarrow> P) \<Longrightarrow> P"
  by (cases r) auto




lemma spaced_pick_after: "spaced w (l # pick_after w l rest)"
  by (induction rest arbitrary: l) auto

lemma spaced_pick_with_wait: "spaced w (pick_with_wait w candidates)"
  by (cases candidates) (simp_all add: pick_with_wait_def spaced_pick_after)

lemma fixture_voice_quality:
  "analyze_voice_quality (fixture_lib [] (\<lambda>y. [1, 5])) [0, 0] 16000 =
     Inr \<lparr> quality_score = 2 / 3, hoarseness = 0, strain = 1 / 3 \<rparr>"
proof -
  have j: "jitter_of (pitches_valid [(100, 1), (100, 1)]) = 0"
    by (simp add: jitter_of_def pitches_valid_def mean_def std_def)
  have "std [1, 5] = sqrt 4" by (simp add: std_def mean_def)
  then have sh: "shimmer_of [1, 5] = 2 / 3"
    by (simp add: shimmer_of_def mean_def)
  have h: "hnr_of [[2], [1]] [0, 4000] = Inr 2"
    by (simp add: hnr_of_def column_means_def mean_def Let_def)
  show ?thesis
    by (simp add: analyze_voice_quality_def fixture_lib_def j sh h Let_def mean_def)
qed

lemma fold_max_ge_start: "(e :: real) \<le> fold max es e"
proof (induction es arbitrary: e)
  case Nil
  then show ?case by simp
next
  case (Cons a es)
  have "e \<le> max a e" by simp
  also have "\<dots> \<le> fold max es (max a e)" by (rule Cons.IH)
  finally show ?case by simp
qed

lemma fold_max_ge_member: "x \<in> set es \<Longrightarrow> (x :: real) \<le> fold max es e"
proof (induction es arbitrary: e)
  case Nil
  then show ?case by simp
next
  case (Cons a es)
  show ?case
  proof (cases "x = a")
    case True
    have "a \<le> max a e" by simp
    also have "\<dots> \<le> fold max es (max a e)" by (rule fold_max_ge_start)
    finally show ?thesis using True by simp
  next
    case False
    then have "x \<in> set es" using Cons.prems by simp
    then show ?thesis using Cons.IH by simp
  qed
qed

lemma fold_max_Max: "fold max es (e :: real) = Max (set (e # es))"
  by (simp only: Max.set_eq_fold)

lemma normalize_trend_eq:
  "es \<noteq> [] \<Longrightarrow>
   normalize_trend es = map (\<lambda>e. if Max (set es) > 0 then e / Max (set es) else 0) es"
  by (cases es) (simp_all add: normalize_trend_def Let_def fold_max_Max del: set_simps Max_insert)

lemma normalize_trend_bounds:
  assumes "\<And>x. x \<in> set es \<Longrightarrow> 0 \<le> x" and "v \<in> set (normalize_trend es)"
  shows "0 \<le> v \<and> v \<le> 1"
proof (cases es)
  case Nil
  then show ?thesis using assms(2) by (simp add: normalize_trend_def)
next
  case (Cons e es')
  let ?M = "fold max es' e"
  have "normalize_trend es = map (\<lambda>x. if ?M > 0 then x / ?M else 0) es"
    unfolding Cons by (simp add: normalize_trend_def Let_def)
  then have "v \<in> (\<lambda>x. if ?M > 0 then x / ?M else 0) ` set es"
    using assms(2) by (simp only: set_map)
  then obtain x where x: "x \<in> set es" "v = (if ?M > 0 then x / ?M else 0)"
    by (rule imageE)
  have le: "x \<le> ?M"
    using x(1) fold_max_ge_start[of e es'] fold_max_ge_member[of x es' e] unfolding Cons by auto
  have "0 \<le> x" using assms(1) x(1) .
  then show ?thesis using le x(2) by (auto simp: divide_le_eq_1)
qed

lemma segment_energies_Inr:
  "segment_energies lib segs = Inr es \<Longrightarrow>
   list_all2 (\<lambda>seg e. \<exists>r. rms lib seg = Inr r \<and> e = mean r) segs es"
proof (induction segs arbitrary: es)
  case Nil
  then show ?case by simp
next
  case (Cons seg segs)
  from Cons.prems obtain r where r: "rms lib seg = Inr r"
    by (cases "rms lib seg") auto
  from Cons.prems r obtain es' where es': "segment_energies lib segs = Inr es'"
    by (cases "segment_energies lib segs") auto
  from Cons.prems r es' have "es = mean r # es'" by simp
  then show ?case using Cons.IH[OF es'] r by auto
qed

lemma analyze_fatigue_Inr:
  assumes "analyze_fatigue lib audio sr = Inr f"
  shows "\<exists>segs. segments_of audio sr = Inr segs \<and>
     (if segs = [] then f = \<lparr> fatigue_score = 0, timeline = [0] \<rparr>
      else \<exists>es. segment_energies lib segs = Inr es \<and>
             f = \<lparr> fatigue_score = fatigue_score_of (normalize_trend es),
                   timeline = normalize_trend es \<rparr>)"
proof -
  from assms obtain segs where 1: "segments_of audio sr = Inr segs"
    by (cases "segments_of audio sr") (auto simp: analyze_fatigue_def)
  show ?thesis
  proof (cases "segs = []")
    case True
    then show ?thesis using assms 1 by (simp add: analyze_fatigue_def)
  next
    case False
    with assms 1 obtain es where 2: "segment_energies lib segs = Inr es"
      by (cases "segment_energies lib segs") (auto simp: analyze_fatigue_def)
    with assms 1 False show ?thesis by (auto simp: analyze_fatigue_def Let_def)
  qed
qed

lemma upt_small: "[0 ..< 3] = [0, 1, 2 :: nat]" "[0 ..< 1] = [0 :: nat]"
  by code_simp+

lemma fixture_range: "range_from_zero 14 6 = Inr [0, 6, 12]" "range_from_zero 1 6 = Inr [0]"
  by (simp_all add: range_from_zero_def upt_small)

lemma fixture_segments:
  "segments_of [1, 1, 1, 1, 1, 1, 2, 2, 2, 2, 2, 2, 3, 3] 2
     = Inr [[1, 1, 1, 1, 1, 1], [2, 2, 2, 2, 2, 2], [3, 3]]"
  "segments_of [1] 2 = Inr []"
proof -
  have len: "length [1, 1, 1, 1, 1, 1, 2, 2, 2, 2, 2, 2, 3, 3 :: real] = 14"
    "length [1 :: real] = 1" "(2 :: int) * 3 = 6"
    by simp_all
  show "segments_of [1, 1, 1, 1, 1, 1, 2, 2, 2, 2, 2, 2, 3, 3] 2
     = Inr [[1, 1, 1, 1, 1, 1], [2, 2, 2, 2, 2, 2], [3, 3]]"
    unfolding segments_of_def Let_def len fixture_range and_then_simps
    by (simp add: slice_from_def)
  show "segments_of [1] 2 = Inr []"
    unfolding segments_of_def Let_def len fixture_range and_then_simps
    by (simp add: slice_from_def)
qed

lemma fixture_fatigue:
  "analyze_fatigue (fixture_lib [] (map abs)) [1, 1, 1, 1, 1, 1, 2, 2, 2, 2, 2, 2, 3, 3] 2
     = Inr \<lparr> fatigue_score = - 2, timeline = [1 / 3, 2 / 3, 1] \<rparr>"
  "analyze_fatigue (fixture_lib [] (map abs)) [1] 2 = Inr \<lparr> fatigue_score = 0, timeline = [0] \<rparr>"
  by (simp_all add: analyze_fatigue_def fixture_segments fixture_lib_def mean_def
        normalize_trend_def fatigue_score_of_def Let_def)


subsection \<open>When a run of the health analyzer returns\<close>

lemma succeeds_and_then:
  "succeeds (and_then r f) \<longleftrightarrow> (case r of Inl e \<Rightarrow> False | Inr x \<Rightarrow> succeeds (f x))"
  by (cases r) simp_all

lemma breathing_succeeds_iff:
  "succeeds (analyze_breathing lib a sr ag) \<longleftrightarrow>
     (case onset_strength lib a sr of Inl e \<Rightarrow> False
      | Inr env \<Rightarrow> succeeds (onset_detect lib env sr (sr div 2))) \<and> sr \<noteq> 0"
  by (auto simp: analyze_breathing_def succeeds_and_then Let_def split: sum.splits)

lemma voice_quality_succeeds_iff:
  "succeeds (analyze_voice_quality lib a sr) \<longleftrightarrow>
     succeeds (piptrack lib a sr) \<and> succeeds (rms lib a) \<and>
     (case stft_abs lib a of Inl e \<Rightarrow> False | Inr S \<Rightarrow>
      case fft_frequencies lib sr of Inl e \<Rightarrow> False | Inr freqs \<Rightarrow> length freqs = length S)"
  by (auto simp: analyze_voice_quality_def hnr_of_def succeeds_and_then Let_def split: sum.splits)

lemma segment_energies_succeeds_iff:
  "succeeds (segment_energies lib segs) \<longleftrightarrow> list_all (\<lambda>seg. succeeds (rms lib seg)) segs"
  by (induction segs) (auto simp: succeeds_and_then split: sum.splits)

lemma fatigue_succeeds_iff:
  "succeeds (analyze_fatigue lib a sr) \<longleftrightarrow>
     (case segments_of a sr of Inl e \<Rightarrow> False
      | Inr segs \<Rightarrow> list_all (\<lambda>seg. succeeds (rms lib seg)) segs)"
proof (cases "segments_of a sr")
  case (Inl e)
  then show ?thesis by (simp add: analyze_fatigue_def)
next
  case (Inr segs)
  show ?thesis
  proof (cases "segs = []")
    case True
    then show ?thesis using Inr by (simp add: analyze_fatigue_def)
  next
    case False
    then show ?thesis
      using Inr segment_energies_succeeds_iff[of lib segs]
      by (cases "segment_energies lib segs") (simp_all add: analyze_fatigue_def Let_def)
  qed
qed

lemma rhythm_succeeds_iff:
  "succeeds (analyze_speech_rhythm lib a sr) \<longleftrightarrow>
     (case onset_strength lib a sr of Inl e \<Rightarrow> False
      | Inr env \<Rightarrow> succeeds (beat_track lib env sr))"
  by (auto simp: analyze_speech_rhythm_def succeeds_and_then Let_def split: sum.splits prod.splits)

lemma health_succeeds_iff_steps:
  "succeeds (analyze_health lib y sr ag) \<longleftrightarrow>
     (case preprocess_audio lib y sr of Inl e \<Rightarrow> False
      | Inr a \<Rightarrow> succeeds (analyze_breathing lib a sr ag) \<and>
          succeeds (analyze_voice_quality lib a sr) \<and>
          succeeds (analyze_fatigue lib a sr) \<and>
          succeeds (analyze_speech_rhythm lib a sr))"
  by (auto simp: analyze_health_def succeeds_and_then split: sum.splits)

lemma health_succeeds_iff_run:
  "succeeds (analyze_health lib y sr ag) \<longleftrightarrow> health_run_ok lib y sr"
proof (cases "normalize lib y")
  case (Inl e)
  then show ?thesis
    by (simp add: health_succeeds_iff_steps preprocess_audio_def health_run_ok_def)
next
  case n: (Inr n)
  show ?thesis
  proof (cases "trim lib n")
    case (Inl e)
    then show ?thesis
      using n by (simp add: health_succeeds_iff_steps preprocess_audio_def health_run_ok_def)
  next
    case a: (Inr a)
    have pre: "preprocess_audio lib y sr = Inr a"
      using n a by (simp add: preprocess_audio_def)
    have run: "health_run_ok lib y sr \<longleftrightarrow>
        (case onset_strength lib a sr of Inl e \<Rightarrow> False | Inr env \<Rightarrow>
           succeeds (onset_detect lib env sr (sr div 2)) \<and> succeeds (beat_track lib env sr)) \<and>
        sr \<noteq> 0 \<and>
        succeeds (piptrack lib a sr) \<and> succeeds (rms lib a) \<and>
        (case stft_abs lib a of Inl e \<Rightarrow> False | Inr S \<Rightarrow>
         case fft_frequencies lib sr of Inl e \<Rightarrow> False | Inr freqs \<Rightarrow> length freqs = length S) \<and>
        (case segments_of a sr of Inl e \<Rightarrow> False | Inr segs \<Rightarrow>
           list_all (\<lambda>seg. succeeds (rms lib seg)) segs)"
      by (simp add: health_run_ok_def n a)
    have steps: "succeeds (analyze_health lib y sr ag) \<longleftrightarrow>
        succeeds (analyze_breathing lib a sr ag) \<and> succeeds (analyze_voice_quality lib a sr) \<and>
        succeeds (analyze_fatigue lib a sr) \<and> succeeds (analyze_speech_rhythm lib a sr)"
      by (simp add: health_succeeds_iff_steps pre)
    show ?thesis
      unfolding run steps
        breathing_succeeds_iff voice_quality_succeeds_iff fatigue_succeeds_iff rhythm_succeeds_iff
      by (cases "onset_strength lib a sr") auto
  qed
qed

lemma breathing_zero_rate: "\<not> succeeds (analyze_breathing lib y 0 ag)"
  by (simp add: breathing_succeeds_iff)

lemma health_zero_rate: "\<not> succeeds (analyze_health lib y 0 ag)"
  by (simp add: health_succeeds_iff_steps breathing_zero_rate split: sum.splits)


subsection \<open>Clips of isolated clicks\<close>














subsection \<open>Runs of the single steps on the library stand-ins\<close>

lemma fixture_steps:
  "preprocess_audio (fixture_lib [] (\<lambda>y. [1, 5])) [0, 0] 16000 = Inr [0, 0]"
  "analyze_breathing (fixture_lib [] (\<lambda>y. [1, 5])) [0, 0] 16000 ''adult''
     = Inr \<lparr> rate = 0, regularity = 0 \<rparr>"
  "analyze_fatigue (fixture_lib [] (\<lambda>y. [1, 5])) [0, 0] 16000
     = Inr \<lparr> fatigue_score = 0, timeline = [0] \<rparr>"
  "analyze_speech_rhythm (fixture_lib [] (\<lambda>y. [1, 5])) [0, 0] 16000
     = Inr \<lparr> fluency = 1, stability = 7 / 8 \<rparr>"
proof -
  show "preprocess_audio (fixture_lib [] (\<lambda>y. [1, 5])) [0, 0] 16000 = Inr [0, 0]"
    by (simp add: preprocess_audio_def fixture_lib_def)
  show "analyze_breathing (fixture_lib [] (\<lambda>y. [1, 5])) [0, 0] 16000 ''adult''
     = Inr \<lparr> rate = 0, regularity = 0 \<rparr>"
    by (simp add: analyze_breathing_def fixture_lib_def pick_with_wait_def
        breathing_regularity_def Let_def)
  have r: "range_from_zero 2 48000 = Inr [0]"
    by (simp add: range_from_zero_def)
  have len: "length [0, 0 :: real] = 2" "(16000 :: int) * 3 = 48000" by simp_all
  have "segments_of [0, 0] 16000 = Inr []"
    unfolding segments_of_def Let_def len r and_then_simps
    by (simp add: slice_from_def)
  then show "analyze_fatigue (fixture_lib [] (\<lambda>y. [1, 5])) [0, 0] 16000
     = Inr \<lparr> fatigue_score = 0, timeline = [0] \<rparr>"
    by (simp add: analyze_fatigue_def)
  have "interval_regularity [10, 10] = 1"
    by (simp add: interval_regularity_def mean_def std_def)
  then show "analyze_speech_rhythm (fixture_lib [] (\<lambda>y. [1, 5])) [0, 0] 16000
     = Inr \<lparr> fluency = 1, stability = 7 / 8 \<rparr>"
    by (simp add: analyze_speech_rhythm_def fixture_lib_def Let_def)
qed

section \<open>The claims about the health analyzer\<close>

text \<open>
  Claim C3 says that neither analyzer ever raises. It fails for \<^verbatim>\<open>analyze_health\<close>, which
  has no \<^verbatim>\<open>try\<close> block: with a sample rate of zero the quotient
  \<^verbatim>\<open>len(audio_data) / sr\<close> raises, and an exception of a library call leaves the
  function as it is.
\<close>

theorem health_raises_counterexample:
  "analyze_health (fixture_lib [] id) [0, 0] 0 ''adult'' = Inl ZeroDivisionError \<and>
   analyze_health failing_lib [0, 0] 16000 ''adult'' = Inl LibraryError"
  by (simp add: analyze_health_def preprocess_audio_def analyze_breathing_def
      fixture_lib_def failing_lib_def)

text \<open>
  Claim C3, amended. \<^verbatim>\<open>analyze_emotions\<close> returns a complete result for every input: the
  default result, or the result built from the features; an exception inside it gives
  the default result. \<^verbatim>\<open>analyze_health\<close> has no handler. It returns exactly when nothing
  in its run raises: each library call it makes returns, the sample rate is not zero
  and the spectrogram has one row for each frequency. Otherwise the exception of the
  first step that raises (preprocessing, breathing, voice quality, fatigue, rhythm, in
  this order) is the exception of the whole call. When all five steps return, the result
  is the record of the four reports.
\<close>

theorem emotions_caught_health_propagates:
  "(analyze_emotions lib audio sr = get_default_results \<or>
      (\<exists>e p t. build_results e p t = Inr (analyze_emotions lib audio sr))) \<and>
   (\<forall>e. analyze_emotions_try lib audio sr = Inl e \<longrightarrow>
      analyze_emotions lib audio sr = get_default_results) \<and>
   (succeeds (analyze_health lib y sr age_group) \<longleftrightarrow> health_run_ok lib y sr) \<and>
   (sr = 0 \<longrightarrow> \<not> succeeds (analyze_health lib y sr age_group)) \<and>
   (\<forall>e. preprocess_audio lib y sr = Inl e \<longrightarrow> analyze_health lib y sr age_group = Inl e) \<and>
   (\<forall>a e. preprocess_audio lib y sr = Inr a \<and> analyze_breathing lib a sr age_group = Inl e
      \<longrightarrow> analyze_health lib y sr age_group = Inl e) \<and>
   (\<forall>a e. preprocess_audio lib y sr = Inr a \<and> succeeds (analyze_breathing lib a sr age_group) \<and>
        analyze_voice_quality lib a sr = Inl e
      \<longrightarrow> analyze_health lib y sr age_group = Inl e) \<and>
   (\<forall>a e. preprocess_audio lib y sr = Inr a \<and> succeeds (analyze_breathing lib a sr age_group) \<and>
        succeeds (analyze_voice_quality lib a sr) \<and> analyze_fatigue lib a sr = Inl e
      \<longrightarrow> analyze_health lib y sr age_group = Inl e) \<and>
   (\<forall>a e. preprocess_audio lib y sr = Inr a \<and> succeeds (analyze_breathing lib a sr age_group) \<and>
        succeeds (analyze_voice_quality lib a sr) \<and> succeeds (analyze_fatigue lib a sr) \<and>
        analyze_speech_rhythm lib a sr = Inl e
      \<longrightarrow> analyze_health lib y sr age_group = Inl e) \<and>
   (\<forall>a b q f r. preprocess_audio lib y sr = Inr a \<and> analyze_breathing lib a sr age_group = Inr b \<and>
        analyze_voice_quality lib a sr = Inr q \<and> analyze_fatigue lib a sr = Inr f \<and>
        analyze_speech_rhythm lib a sr = Inr r
      \<longrightarrow> analyze_health lib y sr age_group =
            Inr \<lparr> breathing = b, voice_quality = q, fatigue = f, speech_rhythm = r \<rparr>)"
proof -
  have 1: "analyze_emotions lib audio sr = get_default_results \<or>
      (\<exists>e p t. build_results e p t = Inr (analyze_emotions lib audio sr))"
  proof (cases "analyze_emotions_try lib audio sr")
    case (Inl e)
    then show ?thesis by (simp add: analyze_emotions_def)
  next
    case (Inr r)
    then have "analyze_emotions lib audio sr = r" by (simp add: analyze_emotions_def)
    with try_cases[OF Inr] show ?thesis by auto
  qed
  have 2: "\<forall>e. analyze_emotions_try lib audio sr = Inl e \<longrightarrow>
      analyze_emotions lib audio sr = get_default_results"
    by (simp add: analyze_emotions_def)
  have 3: "succeeds (analyze_health lib y sr age_group) \<longleftrightarrow> health_run_ok lib y sr"
    by (rule health_succeeds_iff_run)
  have 4: "sr = 0 \<longrightarrow> \<not> succeeds (analyze_health lib y sr age_group)"
    using health_zero_rate by blast
  have 5: "\<forall>e. preprocess_audio lib y sr = Inl e \<longrightarrow> analyze_health lib y sr age_group = Inl e"
    by (simp add: analyze_health_def)
  have 6: "\<forall>a e. preprocess_audio lib y sr = Inr a \<and> analyze_breathing lib a sr age_group = Inl e
      \<longrightarrow> analyze_health lib y sr age_group = Inl e"
    by (simp add: analyze_health_def)
  have 7: "\<forall>a e. preprocess_audio lib y sr = Inr a \<and> succeeds (analyze_breathing lib a sr age_group) \<and>
        analyze_voice_quality lib a sr = Inl e
      \<longrightarrow> analyze_health lib y sr age_group = Inl e"
    by (auto simp: analyze_health_def elim!: succeedsE)
  have 8: "\<forall>a e. preprocess_audio lib y sr = Inr a \<and> succeeds (analyze_breathing lib a sr age_group) \<and>
        succeeds (analyze_voice_quality lib a sr) \<and> analyze_fatigue lib a sr = Inl e
      \<longrightarrow> analyze_health lib y sr age_group = Inl e"
    by (auto simp: analyze_health_def elim!: succeedsE)
  have 9: "\<forall>a e. preprocess_audio lib y sr = Inr a \<and> succeeds (analyze_breathing lib a sr age_group) \<and>
        succeeds (analyze_voice_quality lib a sr) \<and> succeeds (analyze_fatigue lib a sr) \<and>
        analyze_speech_rhythm lib a sr = Inl e
      \<longrightarrow> analyze_health lib y sr age_group = Inl e"
    by (auto simp: analyze_health_def elim!: succeedsE)
  have 10: "\<forall>a b q f r. preprocess_audio lib y sr = Inr a \<and> analyze_breathing lib a sr age_group = Inr b \<and>
        analyze_voice_quality lib a sr = Inr q \<and> analyze_fatigue lib a sr = Inr f \<and>
        analyze_speech_rhythm lib a sr = Inr r
      \<longrightarrow> analyze_health lib y sr age_group =
            Inr \<lparr> breathing = b, voice_quality = q, fatigue = f, speech_rhythm = r \<rparr>"
    by (simp add: analyze_health_def)
  show ?thesis
    by (intro conjI) (rule 1 2 3 4 5 6 7 8 9 10)+
qed

text \<open>
  The amended claim C3 on library stand-ins: one in which every call raises, one in
  which none does, and four in which a single call raises (the onset detector, the
  pitch tracker, the RMS of a segment, the beat tracker).
\<close>

theorem emotions_caught_health_propagates_witness:
  "analyze_emotions_try failing_lib (Arr1 (replicate 16000 0)) 16000 = Inl LibraryError \<and>
   analyze_emotions failing_lib (Arr1 (replicate 16000 0)) 16000 = get_default_results \<and>
   health_run_ok (fixture_lib [] (\<lambda>y. [1, 5])) [0, 0] 16000 \<and>
   analyze_health (fixture_lib [] (\<lambda>y. [1, 5])) [0, 0] 16000 ''adult'' =
     Inr \<lparr> breathing = \<lparr> rate = 0, regularity = 0 \<rparr>,
           voice_quality = \<lparr> quality_score = 2 / 3, hoarseness = 0, strain = 1 / 3 \<rparr>,
           fatigue = \<lparr> fatigue_score = 0, timeline = [0] \<rparr>,
           speech_rhythm = \<lparr> fluency = 1, stability = 7 / 8 \<rparr> \<rparr> \<and>
   \<not> health_run_ok (fixture_lib [] (\<lambda>y. [1, 5])) [0, 0] 0 \<and>
   \<not> succeeds (analyze_health (fixture_lib [] (\<lambda>y. [1, 5])) [0, 0] 0 ''adult'') \<and>
   preprocess_audio failing_lib [0, 0] 16000 = Inl LibraryError \<and>
   analyze_health failing_lib [0, 0] 16000 ''adult'' = Inl LibraryError \<and>
   analyze_breathing ((fixture_lib [] (\<lambda>y. [1, 5])) \<lparr> onset_detect := \<lambda>env sr w. Inl LibraryError \<rparr>)
      [0, 0] 16000 ''adult'' = Inl LibraryError \<and>
   analyze_health ((fixture_lib [] (\<lambda>y. [1, 5])) \<lparr> onset_detect := \<lambda>env sr w. Inl LibraryError \<rparr>)
      [0, 0] 16000 ''adult'' = Inl LibraryError \<and>
   analyze_voice_quality ((fixture_lib [] (\<lambda>y. [1, 5])) \<lparr> piptrack := \<lambda>y sr. Inl LibraryError \<rparr>)
      [0, 0] 16000 = Inl LibraryError \<and>
   analyze_health ((fixture_lib [] (\<lambda>y. [1, 5])) \<lparr> piptrack := \<lambda>y sr. Inl LibraryError \<rparr>)
      [0, 0] 16000 ''adult'' = Inl LibraryError \<and>
   analyze_fatigue
      ((fixture_lib [] id) \<lparr> rms := \<lambda>y. if length y = 14 then Inr y else Inl LibraryError \<rparr>)
      [1, 1, 1, 1, 1, 1, 2, 2, 2, 2, 2, 2, 3, 3] 2 = Inl LibraryError \<and>
   analyze_health
      ((fixture_lib [] id) \<lparr> rms := \<lambda>y. if length y = 14 then Inr y else Inl LibraryError \<rparr>)
      [1, 1, 1, 1, 1, 1, 2, 2, 2, 2, 2, 2, 3, 3] 2 ''adult'' = Inl LibraryError \<and>
   analyze_speech_rhythm ((fixture_lib [] (\<lambda>y. [1, 5])) \<lparr> beat_track := \<lambda>env sr. Inl LibraryError \<rparr>)
      [0, 0] 16000 = Inl LibraryError \<and>
   analyze_health ((fixture_lib [] (\<lambda>y. [1, 5])) \<lparr> beat_track := \<lambda>env sr. Inl LibraryError \<rparr>)
      [0, 0] 16000 ''adult'' = Inl LibraryError"
proof -
  let ?L = "fixture_lib [] (\<lambda>y. [1, 5])"
  let ?D = "?L \<lparr> onset_detect := \<lambda>env sr w. Inl LibraryError \<rparr>"
  let ?E = "?L \<lparr> piptrack := \<lambda>y sr. Inl LibraryError \<rparr>"
  let ?F = "(fixture_lib [] id) \<lparr> rms := \<lambda>y. if length y = 14 then Inr y else Inl LibraryError \<rparr>"
  let ?G = "?L \<lparr> beat_track := \<lambda>env sr. Inl LibraryError \<rparr>"
  let ?clip = "[1, 1, 1, 1, 1, 1, 2, 2, 2, 2, 2, 2, 3, 3 :: real]"
  let ?mono = "Arr1 (replicate 16000 0)"
  have seg0: "segments_of [0, 0] 16000 = Inr []"
  proof -
    have r: "range_from_zero 2 48000 = Inr [0]" by (simp add: range_from_zero_def)
    have len: "length [0, 0 :: real] = 2" "(16000 :: int) * 3 = 48000" by simp_all
    show ?thesis
      unfolding segments_of_def Let_def len r and_then_simps by (simp add: slice_from_def)
  qed
  have len14: "length ?clip = 14" by simp
  have fails: "analyze_emotions_try failing_lib ?mono 16000 = Inl LibraryError"
    by (simp add: analyze_emotions_try_def to_mono_def failing_lib_def)
  have 1: "analyze_emotions failing_lib ?mono 16000 = get_default_results"
    using emotions_caught_health_propagates[of failing_lib ?mono 16000 "[0, 0]" "''adult''"]
      fails by blast
  have ok: "health_run_ok ?L [0, 0] 16000"
    by (simp add: health_run_ok_def fixture_lib_def seg0)
  have 2: "analyze_health ?L [0, 0] 16000 ''adult'' =
     Inr \<lparr> breathing = \<lparr> rate = 0, regularity = 0 \<rparr>,
           voice_quality = \<lparr> quality_score = 2 / 3, hoarseness = 0, strain = 1 / 3 \<rparr>,
           fatigue = \<lparr> fatigue_score = 0, timeline = [0] \<rparr>,
           speech_rhythm = \<lparr> fluency = 1, stability = 7 / 8 \<rparr> \<rparr>"
    using emotions_caught_health_propagates[of ?L ?mono 16000 "[0, 0]" "''adult''"]
      fixture_steps fixture_voice_quality by blast
  have bad: "\<not> health_run_ok ?L [0, 0] 0"
    by (simp add: health_run_ok_def fixture_lib_def)
  have 3: "\<not> succeeds (analyze_health ?L [0, 0] 0 ''adult'')"
    using emotions_caught_health_propagates[of ?L ?mono 0 "[0, 0]" "''adult''"] bad by blast
  have pre: "preprocess_audio failing_lib [0, 0] 16000 = Inl LibraryError"
    by (simp add: preprocess_audio_def failing_lib_def)
  have 4: "analyze_health failing_lib [0, 0] 16000 ''adult'' = Inl LibraryError"
    using emotions_caught_health_propagates[of failing_lib ?mono 16000 "[0, 0]" "''adult''"]
      pre by blast
  have preD: "preprocess_audio ?D [0, 0] 16000 = Inr [0, 0]"
    by (simp add: preprocess_audio_def fixture_lib_def)
  have brD: "analyze_breathing ?D [0, 0] 16000 ''adult'' = Inl LibraryError"
    by (simp add: analyze_breathing_def fixture_lib_def)
  have 5: "analyze_health ?D [0, 0] 16000 ''adult'' = Inl LibraryError"
    using emotions_caught_health_propagates[of ?D ?mono 16000 "[0, 0]" "''adult''"]
      preD brD by blast
  have preE: "preprocess_audio ?E [0, 0] 16000 = Inr [0, 0]"
    by (simp add: preprocess_audio_def fixture_lib_def)
  have brE: "succeeds (analyze_breathing ?E [0, 0] 16000 ''adult'')"
    by (simp add: analyze_breathing_def fixture_lib_def Let_def)
  have vqE: "analyze_voice_quality ?E [0, 0] 16000 = Inl LibraryError"
    by (simp add: analyze_voice_quality_def fixture_lib_def)
  have 6: "analyze_health ?E [0, 0] 16000 ''adult'' = Inl LibraryError"
    using emotions_caught_health_propagates[of ?E ?mono 16000 "[0, 0]" "''adult''"]
      preE brE vqE by blast
  have preF: "preprocess_audio ?F ?clip 2 = Inr ?clip"
    by (simp add: preprocess_audio_def fixture_lib_def)
  have brF: "succeeds (analyze_breathing ?F ?clip 2 ''adult'')"
    by (simp add: analyze_breathing_def fixture_lib_def Let_def)
  have vqF: "succeeds (analyze_voice_quality ?F ?clip 2)"
    by (simp add: voice_quality_succeeds_iff fixture_lib_def)
  have faF: "analyze_fatigue ?F ?clip 2 = Inl LibraryError"
    by (simp add: analyze_fatigue_def fixture_segments fixture_lib_def)
  have 7: "analyze_health ?F ?clip 2 ''adult'' = Inl LibraryError"
    using emotions_caught_health_propagates[of ?F ?mono 2 ?clip "''adult''"]
      preF brF vqF faF by blast
  have preG: "preprocess_audio ?G [0, 0] 16000 = Inr [0, 0]"
    by (simp add: preprocess_audio_def fixture_lib_def)
  have brG: "succeeds (analyze_breathing ?G [0, 0] 16000 ''adult'')"
    by (simp add: analyze_breathing_def fixture_lib_def Let_def)
  have vqG: "succeeds (analyze_voice_quality ?G [0, 0] 16000)"
    by (simp add: voice_quality_succeeds_iff fixture_lib_def)
  have faG: "succeeds (analyze_fatigue ?G [0, 0] 16000)"
    by (simp add: analyze_fatigue_def seg0)
  have rhG: "analyze_speech_rhythm ?G [0, 0] 16000 = Inl LibraryError"
    by (simp add: analyze_speech_rhythm_def fixture_lib_def)
  have 8: "analyze_health ?G [0, 0] 16000 ''adult'' = Inl LibraryError"
    using emotions_caught_health_propagates[of ?G ?mono 16000 "[0, 0]" "''adult''"]
      preG brG vqG faG rhG by blast
  show ?thesis
    by (intro conjI) (rule fails 1 ok 2 bad 3 pre 4 brD 5 vqE 6 faF 7 rhG 8)+
qed





text \<open>
  Claim C6. For a library whose RMS envelope is not negative: when no segment is
  eligible the timeline is \<open>[0]\<close> and the fatigue score 0; otherwise the timeline is the
  list of the segments' mean RMS divided by its maximum (all 0 when the maximum is not
  positive), every value of it lies in \<open>[0, 1]\<close>, and the fatigue score is 1 minus the
  last value divided by the first, or 0 when the first is 0.
\<close>

theorem fatigue_timeline_bounds:
  assumes "analyze_fatigue lib audio sr = Inr f"
    and "\<forall>seg r. rms lib seg = Inr r \<longrightarrow> (\<forall>x \<in> set r. 0 \<le> x)"
  shows "\<exists>segs. segments_of audio sr = Inr segs \<and>
    (segs = [] \<longrightarrow> timeline f = [0] \<and> fatigue_score f = 0) \<and>
    (segs \<noteq> [] \<longrightarrow>
       (\<exists>es. list_all2 (\<lambda>seg e. \<exists>r. rms lib seg = Inr r \<and> e = mean r) segs es \<and>
          timeline f = map (\<lambda>e. if Max (set es) > 0 then e / Max (set es) else 0) es) \<and>
       (\<forall>v \<in> set (timeline f). 0 \<le> v \<and> v \<le> 1) \<and>
       fatigue_score f =
         (if hd (timeline f) = 0 then 0 else 1 - last (timeline f) / hd (timeline f)))"
proof -
  from analyze_fatigue_Inr[OF assms(1)] obtain segs where
    segs: "segments_of audio sr = Inr segs"
    and f: "if segs = [] then f = \<lparr> fatigue_score = 0, timeline = [0] \<rparr>
      else \<exists>es. segment_energies lib segs = Inr es \<and>
             f = \<lparr> fatigue_score = fatigue_score_of (normalize_trend es),
                   timeline = normalize_trend es \<rparr>"
    by blast
  have empty: "timeline f = [0] \<and> fatigue_score f = 0" if "segs = []"
    using f that by simp
  have full: "(\<exists>es. list_all2 (\<lambda>seg e. \<exists>r. rms lib seg = Inr r \<and> e = mean r) segs es \<and>
          timeline f = map (\<lambda>e. if Max (set es) > 0 then e / Max (set es) else 0) es) \<and>
       (\<forall>v \<in> set (timeline f). 0 \<le> v \<and> v \<le> 1) \<and>
       fatigue_score f =
         (if hd (timeline f) = 0 then 0 else 1 - last (timeline f) / hd (timeline f))"
    if ne: "segs \<noteq> []"
  proof -
    from f ne obtain es where es: "segment_energies lib segs = Inr es"
      and fe: "f = \<lparr> fatigue_score = fatigue_score_of (normalize_trend es),
                   timeline = normalize_trend es \<rparr>"
      by auto
    note la = segment_energies_Inr[OF es]
    then have len: "length es = length segs" by (simp add: list_all2_lengthD)
    then have es_ne: "es \<noteq> []" using ne by auto
    have nonneg: "0 \<le> x" if "x \<in> set es" for x
    proof -
      from that obtain i where i: "i < length es" "x = es ! i" by (auto simp: in_set_conv_nth)
      with la obtain r where r: "rms lib (segs ! i) = Inr r" "x = mean r"
        by (auto simp: list_all2_conv_all_nth)
      from assms(2) r(1) have "\<And>y. y \<in> set r \<Longrightarrow> 0 \<le> y" by blast
      then show ?thesis unfolding r(2) by (rule mean_nonneg)
    qed
    have tl: "timeline f = normalize_trend es" by (simp add: fe)
    have b: "\<forall>v \<in> set (timeline f). 0 \<le> v \<and> v \<le> 1"
      unfolding tl using normalize_trend_bounds[of es] nonneg by blast
    have tl_ne: "timeline f \<noteq> []" unfolding tl normalize_trend_eq[OF es_ne] using es_ne by simp
    then have "hd (timeline f) \<in> set (timeline f)" by simp
    with b have "0 \<le> hd (timeline f)" by blast
    then have pos: "hd (timeline f) > 0 \<longleftrightarrow> hd (timeline f) \<noteq> 0" by linarith
    have "fatigue_score f = fatigue_score_of (timeline f)" by (simp add: fe)
    then have sc: "fatigue_score f =
         (if hd (timeline f) = 0 then 0 else 1 - last (timeline f) / hd (timeline f))"
      using tl_ne pos by (simp add: fatigue_score_of_def)
    from la tl normalize_trend_eq[OF es_ne] b sc show ?thesis by auto
  qed
  from segs empty full show ?thesis by blast
qed

text \<open>Claim C6 on a seven-second clip at 2 Hz with rising energy, and on a clip too short for a segment.\<close>

theorem fatigue_timeline_bounds_witness:
  "analyze_fatigue (fixture_lib [] (map abs)) [1, 1, 1, 1, 1, 1, 2, 2, 2, 2, 2, 2, 3, 3] 2
     = Inr \<lparr> fatigue_score = - 2, timeline = [1 / 3, 2 / 3, 1] \<rparr> \<and>
   segments_of [1, 1, 1, 1, 1, 1, 2, 2, 2, 2, 2, 2, 3, 3] 2
     = Inr [[1, 1, 1, 1, 1, 1], [2, 2, 2, 2, 2, 2], [3, 3]] \<and>
   (\<exists>segs. segments_of [1, 1, 1, 1, 1, 1, 2, 2, 2, 2, 2, 2, 3, 3] 2 = Inr segs \<and> segs \<noteq> [] \<and>
      (\<forall>v \<in> set (timeline \<lparr> fatigue_score = - 2, timeline = [1 / 3, 2 / 3, 1] \<rparr>).
         0 \<le> v \<and> v \<le> 1)) \<and>
   analyze_fatigue (fixture_lib [] (map abs)) [1] 2 = Inr \<lparr> fatigue_score = 0, timeline = [0] \<rparr> \<and>
   segments_of [1] 2 = Inr [] \<and>
   (\<exists>segs. segments_of [1] 2 = Inr segs \<and> segs = [] \<and>
      timeline \<lparr> fatigue_score = 0, timeline = [0] \<rparr> = [0] \<and>
      fatigue_score \<lparr> fatigue_score = 0, timeline = [0 :: real] \<rparr> = 0)"
proof -
  have contract:
    "\<forall>seg r. rms (fixture_lib [] (map abs)) seg = Inr r \<longrightarrow> (\<forall>x \<in> set r. 0 \<le> x)"
    by (auto simp: fixture_lib_def)
  from fatigue_timeline_bounds[OF fixture_fatigue(1) contract]
  have A: "\<exists>segs. segments_of [1, 1, 1, 1, 1, 1, 2, 2, 2, 2, 2, 2, 3, 3] 2 = Inr segs \<and> segs \<noteq> [] \<and>
      (\<forall>v \<in> set (timeline \<lparr> fatigue_score = - 2, timeline = [1 / 3, 2 / 3, 1] \<rparr>).
         0 \<le> v \<and> v \<le> 1)"
    unfolding fixture_segments by auto
  from fatigue_timeline_bounds[OF fixture_fatigue(2) contract]
  have B: "\<exists>segs. segments_of [1] 2 = Inr segs \<and> segs = [] \<and>
      timeline \<lparr> fatigue_score = 0, timeline = [0] \<rparr> = [0] \<and>
      fatigue_score \<lparr> fatigue_score = 0, timeline = [0 :: real] \<rparr> = 0"
    unfolding fixture_segments by auto
  from A B fixture_fatigue fixture_segments show ?thesis by blast
qed

end
